theory Spec2Isabelle
  imports Main
begin

section \<open>Go values shared by the packages\<close>

text \<open>
  Go strings are byte sequences: \<open>string\<close> (a \<open>char list\<close>) models them, and
  \<open>[]byte\<close> as well. An \<open>error\<close> value is modelled by its message, the text
  \<open>err.Error()\<close> returns; \<open>fmt.Errorf("...: %w", err)\<close> is the prefix followed by
  the message of the wrapped error.
\<close>

type_synonym go_error = string

text \<open>
  A handler either returns an error value or panics. The only panic the modelled code
  can raise is the dereference of a nil \<open>*http.Response\<close>.
\<close>

datatype failure = Err go_error | NilDereference

subsection \<open>package strings\<close>

text \<open>
  \<open>strings.HasPrefix(s, prefix)\<close> is \<open>len(s) >= len(prefix) && s[:len(prefix)] == prefix\<close>,
  \<open>strings.HasSuffix(s, suffix)\<close> is
  \<open>len(s) >= len(suffix) && s[len(s)-len(suffix):] == suffix\<close>.
\<close>

definition HasPrefix :: "string \<Rightarrow> string \<Rightarrow> bool" where
  "HasPrefix s pre = (length s \<ge> length pre \<and> take (length pre) s = pre)"

definition HasSuffix :: "string \<Rightarrow> string \<Rightarrow> bool" where
  "HasSuffix s suf = (length s \<ge> length suf \<and> drop (length s - length suf) s = suf)"

text \<open>\<open>strings.Join(elems, sep)\<close>.\<close>

fun Join :: "string list \<Rightarrow> string \<Rightarrow> string" where
  "Join [] sep = []"
| "Join [x] sep = x"
| "Join (x # y # ys) sep = x @ sep @ Join (y # ys) sep"

section \<open>package raw: the raw content client\<close>

text \<open>
  \<open>Client\<close> holds the base URL of the raw content API. \<open>(*url.URL).JoinPath\<close> followed
  by \<open>String()\<close> belongs to the Go standard library (path cleaning and escaping); the
  client's methods take it as the parameter \<open>jp\<close>: \<open>jp base elems\<close> is
  \<open>base.JoinPath(elems...).String()\<close>. The URL written \<open>base/owner/repo/x/path\<close> in the
  specification is \<open>jp base [owner, repo, x, path]\<close>.
\<close>

type_synonym url = string

type_synonym join_path = "url \<Rightarrow> string list \<Rightarrow> string"

record Client =
  client_url :: url

record RawContentOpts =
  Ref :: string
  SHA :: string

definition refURL :: "join_path \<Rightarrow> Client \<Rightarrow> string \<Rightarrow> string \<Rightarrow> string \<Rightarrow> string \<Rightarrow> string" where
  "refURL jp c owner repo ref path =
     (if ref = [] then jp (client_url c) [owner, repo, ''HEAD'', path]
      else jp (client_url c) [owner, repo, ref, path])"

definition commitURL :: "join_path \<Rightarrow> Client \<Rightarrow> string \<Rightarrow> string \<Rightarrow> string \<Rightarrow> string \<Rightarrow> string" where
  "commitURL jp c owner repo sha path = jp (client_url c) [owner, repo, sha, path]"

text \<open>
  \<open>opts\<close> is a pointer: \<open>None\<close> is nil, replaced by the zero value
  \<open>&RawContentOpts{}\<close>.
\<close>

definition URLFromOpts ::
  "join_path \<Rightarrow> Client \<Rightarrow> RawContentOpts option \<Rightarrow> string \<Rightarrow> string \<Rightarrow> string \<Rightarrow> string" where
  "URLFromOpts jp c opts owner repo path =
     (let opts' = (case opts of None \<Rightarrow> \<lparr>Ref = [], SHA = []\<rparr> | Some o' \<Rightarrow> o')
      in if SHA opts' \<noteq> [] then commitURL jp c owner repo (SHA opts') path
         else refURL jp c owner repo (Ref opts') path)"

text \<open>
  A joining function for running the examples of the repository's tests
  (\<open>TestUrlFromOpts\<close>): on a base that ends in a slash and clean, non-empty segments,
  \<open>JoinPath\<close> appends the segments separated by slashes.
\<close>

definition joinSegments :: join_path where
  "joinSegments base elems = base @ Join elems ''/''"

subsection \<open>package path/filepath, encoding/base64, mime\<close>

text \<open>
  \<open>filepath.Ext(path)\<close> scans the path from its last byte towards the first, stops at
  a path separator, and returns the suffix that starts at the first dot it meets (the
  last dot of the final element); the empty string when there is none.
  \<open>ext_scan\<close> is that loop: its first argument is the part not yet scanned, reversed,
  its second the bytes already passed.
\<close>

fun ext_scan :: "string \<Rightarrow> string \<Rightarrow> string" where
  "ext_scan [] acc = []"
| "ext_scan (c # cs) acc =
     (if c = CHR ''/'' then []
      else if c = CHR ''.'' then c # acc
      else ext_scan cs (c # acc))"

definition Ext :: "string \<Rightarrow> string" where
  "Ext path = ext_scan (rev path) []"

text \<open>
  \<open>base64.StdEncoding.EncodeToString\<close>: three bytes become four characters of the
  standard alphabet, the last group is padded with \<open>=\<close>.
\<close>

definition encodeStd :: string where
  "encodeStd = ''ABCDEFGHIJKLMNOPQRSTUVWXYZabcdefghijklmnopqrstuvwxyz0123456789+/''"

fun encodeGroups :: "nat list \<Rightarrow> string" where
  "encodeGroups [] = []"
| "encodeGroups [a] =
     [encodeStd ! (a div 4), encodeStd ! ((a mod 4) * 16), CHR ''='', CHR ''='']"
| "encodeGroups [a, b] =
     [encodeStd ! (a div 4), encodeStd ! ((a mod 4) * 16 + b div 16),
      encodeStd ! ((b mod 16) * 4), CHR ''='']"
| "encodeGroups (a # b # c # rest) =
     [encodeStd ! (a div 4), encodeStd ! ((a mod 4) * 16 + b div 16),
      encodeStd ! ((b mod 16) * 4 + c div 64), encodeStd ! (c mod 64)] @ encodeGroups rest"

definition EncodeToString :: "string \<Rightarrow> string" where
  "EncodeToString content = encodeGroups (map of_char content)"

section \<open>package github: the repository content resource\<close>

text \<open>
  The arguments of a resource request are a \<open>map[string]any\<close>. The handler reads each
  of them with the type assertion \<open>.([]string)\<close>, so a value is either a string slice
  or something else; a missing key fails the assertion as well.
\<close>

datatype argument = Strings "string list" | NotStrings

record ReadResourceRequest =
  URI :: string
  Arguments :: "string \<rightharpoonup> argument"

definition stringsArg :: "(string \<rightharpoonup> argument) \<Rightarrow> string \<Rightarrow> string list option" where
  "stringsArg args k = (case args k of Some (Strings xs) \<Rightarrow> Some xs | _ \<Rightarrow> None)"

datatype ResourceContents =
    TextResourceContents string string string
  | BlobResourceContents string string string

text \<open>The fields are URI, MIMEType and Text (or Blob), in this order.\<close>

fun MIMEType :: "ResourceContents \<Rightarrow> string" where
  "MIMEType (TextResourceContents uri mimeType txt) = mimeType"
| "MIMEType (BlobResourceContents uri mimeType blob) = mimeType"

text \<open>
  Of an \<open>*http.Response\<close> the handler reads the status code, the header
  \<open>Content-Type\<close> (\<open>Header.Get\<close> returns the empty string when it is absent) and
  the body; \<open>Body\<close> is the result of \<open>io.ReadAll(resp.Body)\<close>.
\<close>

record Response =
  StatusCode :: int
  ContentType :: string
  Body :: "go_error + string"

text \<open>
  Of a pull request the handler reads \<open>pr.GetHead().GetSHA()\<close>. Both are pointers and
  both getters are nil-safe: a missing head or a missing SHA gives the empty string.
\<close>

record PullRequestBranch =
  branch_SHA :: "string option"

record PullRequest =
  Head :: "PullRequestBranch option"

definition GetHead :: "PullRequest \<Rightarrow> PullRequestBranch option" where
  "GetHead pr = Head pr"

definition GetSHA :: "PullRequestBranch option \<Rightarrow> string" where
  "GetSHA b = (case b of None \<Rightarrow> []
               | Some b' \<Rightarrow> (case branch_SHA b' of None \<Rightarrow> [] | Some s \<Rightarrow> s))"

text \<open>
  The collaborators of the handler. \<open>getClient\<close> and \<open>getRawClient\<close> are the
  capability provider (\<open>getClient\<close> gives its error, if any); \<open>PullRequests_Get\<close>
  and \<open>Do\<close> are the two requests that go over the network; \<open>Do\<close> returns Go's pair
  of a response pointer and an error. \<open>newRequest\<close> builds the request and gives its
  error, if any. \<open>JoinPath\<close>, \<open>Atoi\<close> (\<open>strconv.Atoi\<close>) and \<open>mimeLookup\<close>
  belong to the standard library: \<open>mimeLookup ext\<close> is the type the MIME table of
  package mime associates with the extension, if any.
\<close>

record world =
  JoinPath :: join_path
  Atoi :: "string \<Rightarrow> go_error + int"
  mimeLookup :: "string \<Rightarrow> string option"
  getClient :: "go_error option"
  PullRequests_Get :: "string \<Rightarrow> string \<Rightarrow> int \<Rightarrow> go_error + PullRequest"
  getRawClient :: "go_error + Client"
  newRequest :: "string \<Rightarrow> go_error option"
  Do :: "string \<Rightarrow> Response option \<times> go_error option"

text \<open>\<open>mime.TypeByExtension\<close> returns the empty string when the extension has no type.\<close>

definition TypeByExtension :: "world \<Rightarrow> string \<Rightarrow> string" where
  "TypeByExtension w ext = (case mimeLookup w ext of None \<Rightarrow> [] | Some t \<Rightarrow> t)"

text \<open>The requests a call of the handler sends over the network, in order.\<close>

datatype call =
    PullRequestsGet string string int
  | RawContentGet string

text \<open>
  \<open>GetRawContent\<close>: the URL is resolved, the request is built, and sent unless
  building it failed.
\<close>

definition GetRawContent ::
  "world \<Rightarrow> Client \<Rightarrow> string \<Rightarrow> string \<Rightarrow> string \<Rightarrow> RawContentOpts option
     \<Rightarrow> call list \<times> (Response option \<times> go_error option)" where
  "GetRawContent w c owner repo path opts =
     (let url = URLFromOpts (JoinPath w) c opts owner repo path
      in case newRequest w url of
           Some e \<Rightarrow> ([], (None, Some e))
         | None \<Rightarrow> ([RawContentGet url], Do w url))"

text \<open>The path is the empty string unless the request has path parts, joined by slashes.\<close>

definition requestPath :: "(string \<rightharpoonup> argument) \<Rightarrow> string" where
  "requestPath args = (case stringsArg args ''path'' of Some p \<Rightarrow> Join p ''/'' | None \<Rightarrow> [])"

text \<open>
  The selectors \<open>sha\<close>, \<open>branch\<close> and \<open>tag\<close> of the request, read in this order
  into the options of the raw client. (The handler fills a second options value for the
  contents API as well, which it never uses.)
\<close>

definition selectorOpts :: "(string \<rightharpoonup> argument) \<Rightarrow> RawContentOpts" where
  "selectorOpts args =
     (let rawOpts = \<lparr>Ref = [], SHA = []\<rparr>;
          rawOpts = (case stringsArg args ''sha'' of
                       Some (s # _) \<Rightarrow> rawOpts\<lparr>SHA := s\<rparr> | _ \<Rightarrow> rawOpts);
          rawOpts = (case stringsArg args ''branch'' of
                       Some (b # _) \<Rightarrow> rawOpts\<lparr>Ref := ''refs/heads/'' @ b\<rparr> | _ \<Rightarrow> rawOpts);
          rawOpts = (case stringsArg args ''tag'' of
                       Some (t # _) \<Rightarrow> rawOpts\<lparr>Ref := ''refs/tags/'' @ t\<rparr> | _ \<Rightarrow> rawOpts)
      in rawOpts)"

text \<open>
  The selector \<open>prNumber\<close>: the pull request is fetched and the SHA of its head
  replaces the SHA of the options.
\<close>

definition pullRequestOpts ::
  "world \<Rightarrow> (string \<rightharpoonup> argument) \<Rightarrow> string \<Rightarrow> string \<Rightarrow> RawContentOpts
     \<Rightarrow> call list \<times> (failure + RawContentOpts)" where
  "pullRequestOpts w args owner repo rawOpts =
     (case stringsArg args ''prNumber'' of
        Some (n # _) \<Rightarrow>
          (case getClient w of
             Some e \<Rightarrow> ([], Inl (Err (''failed to get GitHub client: '' @ e)))
           | None \<Rightarrow>
              (case Atoi w n of
                 Inl e \<Rightarrow> ([], Inl (Err (''invalid pull request number: '' @ e)))
               | Inr prNum \<Rightarrow>
                  (case PullRequests_Get w owner repo prNum of
                     Inl e \<Rightarrow> ([PullRequestsGet owner repo prNum],
                               Inl (Err (''failed to get pull request: '' @ e)))
                   | Inr pr \<Rightarrow> ([PullRequestsGet owner repo prNum],
                               Inr (rawOpts\<lparr>SHA := GetSHA (GetHead pr)\<rparr>)))))
      | _ \<Rightarrow> ([], Inr rawOpts))"

text \<open>
  The first half of the handler, up to the \<open>switch\<close> over the response: the
  arguments are read, the reference is resolved, directories are refused and the raw
  content is requested. It returns the path and the response. The handler defers
  \<open>resp.Body.Close()\<close> right after \<open>GetRawContent\<close>, before it looks at the error: when
  no response came back, the deferred call dereferences nil and the handler panics.
\<close>

definition fetchRawContent ::
  "world \<Rightarrow> ReadResourceRequest \<Rightarrow> call list \<times> (failure + string \<times> Response)" where
  "fetchRawContent w request =
     (let args = Arguments request in
      case stringsArg args ''owner'' of
        None \<Rightarrow> ([], Inl (Err ''owner is required''))
      | Some [] \<Rightarrow> ([], Inl (Err ''owner is required''))
      | Some (owner # _) \<Rightarrow>
         (case stringsArg args ''repo'' of
            None \<Rightarrow> ([], Inl (Err ''repo is required''))
          | Some [] \<Rightarrow> ([], Inl (Err ''repo is required''))
          | Some (repo # _) \<Rightarrow>
             (let path = requestPath args
              in case pullRequestOpts w args owner repo (selectorOpts args) of
                   (calls, Inl f) \<Rightarrow> (calls, Inl f)
                 | (calls, Inr rawOpts) \<Rightarrow>
                     if path = [] \<or> HasSuffix path ''/''
                     then (calls, Inl (Err (''directories are not supported: '' @ path)))
                     else
                      (case getRawClient w of
                         Inl e \<Rightarrow>
                           (calls, Inl (Err (''failed to get GitHub raw content client: '' @ e)))
                       | Inr rawClient \<Rightarrow>
                          (case GetRawContent w rawClient owner repo path (Some rawOpts) of
                             (calls', (None, _)) \<Rightarrow> (calls @ calls', Inl NilDereference)
                           | (calls', (Some resp, Some e)) \<Rightarrow>
                               (calls @ calls', Inl (Err (''failed to get raw content: '' @ e)))
                           | (calls', (Some resp, None)) \<Rightarrow>
                               (calls @ calls', Inr (path, resp)))))))"

text \<open>The \<open>switch\<close> over the response: the second half of the handler.\<close>

definition responseContents ::
  "world \<Rightarrow> string \<Rightarrow> string \<Rightarrow> Response \<Rightarrow> failure + ResourceContents list" where
  "responseContents w uri path resp =
     (if StatusCode resp = 200 then
        (let ext = Ext path;
             mimeType = ContentType resp;
             mimeType = (if ext = ''.md'' then ''text/markdown''
                         else if mimeType = [] then TypeByExtension w ext
                         else mimeType)
         in case Body resp of
              Inl e \<Rightarrow> Inl (Err (''failed to read file content: '' @ e))
            | Inr content \<Rightarrow>
                if HasPrefix mimeType ''text'' \<or> HasPrefix mimeType ''application''
                then Inr [TextResourceContents uri mimeType content]
                else Inr [BlobResourceContents uri mimeType (EncodeToString content)])
      else if StatusCode resp \<noteq> 404 then
        (case Body resp of
           Inl e \<Rightarrow> Inl (Err (''failed to read response body: '' @ e))
         | Inr body \<Rightarrow> Inl (Err (''failed to fetch raw content: '' @ body)))
      else Inl (Err ''404 Not Found''))"

definition RepositoryResourceContentsHandler ::
  "world \<Rightarrow> ReadResourceRequest \<Rightarrow> call list \<times> (failure + ResourceContents list)" where
  "RepositoryResourceContentsHandler w request =
     (case fetchRawContent w request of
        (calls, Inl f) \<Rightarrow> (calls, Inl f)
      | (calls, Inr (path, resp)) \<Rightarrow> (calls, responseContents w (URI request) path resp))"

text \<open>
  The setting of the repository's test \<open>Test_repositoryResourceContentsHandler\<close>: the
  raw content API at \<open>https://raw.example.com/\<close> answers every request with the given
  response, and pull request 42 has the head commit \<open>abc123\<close>.
\<close>

definition testWorld :: "Response \<Rightarrow> world" where
  "testWorld resp =
     \<lparr>JoinPath = joinSegments,
      Atoi = (\<lambda>s. if s = ''42'' then Inr 42 else Inl ''invalid syntax''),
      mimeLookup = (\<lambda>ext. if ext = ''.png'' then Some ''image/png'' else None),
      getClient = None,
      PullRequests_Get = (\<lambda>owner repo n.
         if n = 42 then Inr \<lparr>Head = Some \<lparr>branch_SHA = Some ''abc123''\<rparr>\<rparr>
         else Inl ''404 Not Found''),
      getRawClient = Inr \<lparr>client_url = ''https://raw.example.com/''\<rparr>,
      newRequest = (\<lambda>url. None),
      Do = (\<lambda>url. (Some resp, None))\<rparr>"

definition testRequest :: "(string \<times> string list) list \<Rightarrow> ReadResourceRequest" where
  "testRequest args = \<lparr>URI = [], Arguments = map_of (map (\<lambda>(k, v). (k, Strings v)) args)\<rparr>"

text \<open>
  A request of the tests for the file at the given path parts, with further selectors,
  and a response with status 200.
\<close>

definition fileRequest :: "string list \<Rightarrow> (string \<times> string list) list \<Rightarrow> ReadResourceRequest" where
  "fileRequest path selectors =
     testRequest ([(''owner'', [''owner'']), (''repo'', [''repo'']), (''path'', path)] @ selectors)"

definition okResponse :: "string \<Rightarrow> string \<Rightarrow> Response" where
  "okResponse ct body = \<lparr>StatusCode = 200, ContentType = ct, Body = Inr body\<rparr>"

definition failResponse :: "int \<Rightarrow> string \<Rightarrow> Response" where
  "failResponse status body = \<lparr>StatusCode = status, ContentType = ''text/plain'', Body = Inr body\<rparr>"

definition testBody :: string where
  "testBody = ''# Test Repository'' @ [CHR 0x0A, CHR 0x0A] @ ''This is a test repository.''"

section \<open>package github: the logs of workflow jobs\<close>

subsection \<open>Values and arguments\<close>

text \<open>
  \<open>fmt\<close>'s verb \<open>%d\<close>: the decimal digits of an integer, with a minus sign when it
  is negative.
\<close>

function show_nat :: "nat \<Rightarrow> string" where
  "show_nat n = (if n < 10 then [''0123456789'' ! n]
                 else show_nat (n div 10) @ [''0123456789'' ! (n mod 10)])"
  by pat_completeness auto
termination
  by (relation "measure id") auto

declare show_nat.simps [simp del]

definition show_int :: "int \<Rightarrow> string" where
  "show_int i = (if i < 0 then CHR ''-'' # show_nat (nat (- i)) else show_nat (nat i))"

text \<open>
  The results are built as \<open>map[string]any\<close> and slices of them: \<open>jval\<close> are these
  values, an object being the key/value pairs of a map (every map of the code has
  distinct keys).
\<close>

datatype jval =
    JString string
  | JInt int
  | JBool bool
  | JArray "jval list"
  | JObject "(string \<times> jval) list"

text \<open>
  The arguments of a tool call are decoded JSON: strings, numbers and booleans. A number
  is modelled by its integer value.
\<close>

datatype argval = AString string | ANumber int | ABool bool

type_synonym tool_arguments = "string \<rightharpoonup> argval"

datatype CallToolResult = ToolResultError string | ToolResultText string

text \<open>
  Of a workflow job the code reads \<open>GetID()\<close>, \<open>GetName()\<close> and
  \<open>GetConclusion()\<close>; the fields hold what these nil-safe getters return.
\<close>

record WorkflowJob =
  job_ID :: int
  job_Name :: string
  Conclusion :: string

text \<open>
  The collaborators of the tool. \<open>client\<close> is the error of \<open>getClient(ctx)\<close>, if
  any. \<open>ListWorkflowJobs\<close> and \<open>GetWorkflowJobLogs\<close> are the requests to the
  GitHub API; \<open>httpGet\<close> is \<open>http.Get\<close> on the download URL: an error, or the status
  code and the result of reading the body. \<open>TrimSpace\<close> (\<open>strings.TrimSpace\<close>) and
  \<open>Marshal\<close> (\<open>json.Marshal\<close>) belong to the standard library.
  \<open>typeErrorText\<close> is the message of an argument accessor for a value of the wrong
  type.
\<close>

record actions =
  client :: "go_error option"
  ListWorkflowJobs :: "string \<Rightarrow> string \<Rightarrow> int \<Rightarrow> go_error + WorkflowJob list"
  GetWorkflowJobLogs :: "string \<Rightarrow> string \<Rightarrow> int \<Rightarrow> go_error + string"
  httpGet :: "string \<Rightarrow> go_error + int \<times> (go_error + string)"
  TrimSpace :: "string \<Rightarrow> string"
  Marshal :: "jval \<Rightarrow> go_error + string"
  typeErrorText :: "string \<Rightarrow> string"

text \<open>The requests a call of the tool sends, in order.\<close>

datatype api_call =
    ListWorkflowJobsCall string string int
  | GetWorkflowJobLogsCall string string int
  | LogDownload string

subsection \<open>Parameter extraction\<close>

text \<open>
  Modelled from the spec: the accessors \<open>RequiredParam\<close>, \<open>OptionalParam\<close> and
  \<open>OptionalIntParam\<close> are not among the sources. The specification describes them as
  type-checked accessors for required and optional call arguments, whose errors report
  a missing or malformed parameter; the repository's tests give the message for a
  missing required parameter. An optional parameter that is absent has the zero value of
  its type.
\<close>

definition RequiredParam_string :: "actions \<Rightarrow> tool_arguments \<Rightarrow> string \<Rightarrow> go_error + string" where
  "RequiredParam_string w args p =
     (case args p of
        None \<Rightarrow> Inl (''missing required parameter: '' @ p)
      | Some (AString v) \<Rightarrow> Inr v
      | Some _ \<Rightarrow> Inl (typeErrorText w p))"

definition OptionalIntParam :: "actions \<Rightarrow> tool_arguments \<Rightarrow> string \<Rightarrow> go_error + int" where
  "OptionalIntParam w args p =
     (case args p of
        None \<Rightarrow> Inr 0
      | Some (ANumber v) \<Rightarrow> Inr v
      | Some _ \<Rightarrow> Inl (typeErrorText w p))"

definition OptionalParam_bool :: "actions \<Rightarrow> tool_arguments \<Rightarrow> string \<Rightarrow> go_error + bool" where
  "OptionalParam_bool w args p =
     (case args p of
        None \<Rightarrow> Inr False
      | Some (ABool v) \<Rightarrow> Inr v
      | Some _ \<Rightarrow> Inl (typeErrorText w p))"

subsection \<open>The tool \<open>get_job_logs\<close>\<close>

definition downloadLogContent :: "actions \<Rightarrow> string \<Rightarrow> go_error + string" where
  "downloadLogContent w logURL =
     (case httpGet w logURL of
        Inl err \<Rightarrow> Inl (''failed to download logs: '' @ err)
      | Inr (status, body) \<Rightarrow>
          if status \<noteq> 200 then Inl (''failed to download logs: HTTP '' @ show_int status)
          else (case body of
                  Inl err \<Rightarrow> Inl (''failed to read log content: '' @ err)
                | Inr content \<Rightarrow> Inr (TrimSpace w content)))"

definition getJobLogData ::
  "actions \<Rightarrow> string \<Rightarrow> string \<Rightarrow> int \<Rightarrow> string \<Rightarrow> bool
     \<Rightarrow> api_call list \<times> (go_error + (string \<times> jval) list)" where
  "getJobLogData w owner repo jobID jobName returnContent =
     (case GetWorkflowJobLogs w owner repo jobID of
        Inl err \<Rightarrow>
          ([GetWorkflowJobLogsCall owner repo jobID],
           Inl (''failed to get job logs for job '' @ show_int jobID @ '': '' @ err))
      | Inr url \<Rightarrow>
          (let result = [(''job_id'', JInt jobID)];
               result = (if jobName \<noteq> [] then result @ [(''job_name'', JString jobName)]
                         else result)
           in if returnContent then
                (case downloadLogContent w url of
                   Inl err \<Rightarrow>
                     ([GetWorkflowJobLogsCall owner repo jobID, LogDownload url],
                      Inl (''failed to download log content for job '' @ show_int jobID
                             @ '': '' @ err))
                 | Inr content \<Rightarrow>
                     ([GetWorkflowJobLogsCall owner repo jobID, LogDownload url],
                      Inr (result @
                        [(''logs_content'', JString content),
                         (''message'', JString ''Job logs content retrieved successfully'')])))
              else
                ([GetWorkflowJobLogsCall owner repo jobID],
                 Inr (result @
                   [(''logs_url'', JString url),
                    (''message'', JString ''Job logs are available for download''),
                    (''note'', JString (''The logs_url provides a download link for the individual job logs in plain text format. '' @
                       ''Use return_content=true to get the actual log content.''))]))))"

text \<open>
  The loop of \<open>handleFailedJobLogs\<close> over the failed jobs: the result of each job, or
  the entry that records its error, is appended to the results.
\<close>

fun collectLogs ::
  "actions \<Rightarrow> string \<Rightarrow> string \<Rightarrow> bool \<Rightarrow> WorkflowJob list \<Rightarrow> api_call list \<times> jval list" where
  "collectLogs w owner repo returnContent [] = ([], [])"
| "collectLogs w owner repo returnContent (job # jobs) =
     (case getJobLogData w owner repo (job_ID job) (job_Name job) returnContent of
        (calls, r) \<Rightarrow>
          (let jobResult = (case r of
                 Inl err \<Rightarrow> [(''job_id'', JInt (job_ID job)),
                             (''job_name'', JString (job_Name job)),
                             (''error'', JString err)]
               | Inr res \<Rightarrow> res)
           in case collectLogs w owner repo returnContent jobs of
                (calls', logResults) \<Rightarrow> (calls @ calls', JObject jobResult # logResults)))"

text \<open>The map that \<open>handleFailedJobLogs\<close> marshals when there are failed jobs.\<close>

definition failedJobsResult ::
  "int \<Rightarrow> nat \<Rightarrow> nat \<Rightarrow> jval list \<Rightarrow> bool \<Rightarrow> (string \<times> jval) list" where
  "failedJobsResult runID totalJobs failedCount logResults returnContent =
     [(''message'', JString (''Retrieved logs for '' @ show_int (int failedCount) @ '' failed jobs'')),
      (''run_id'', JInt runID),
      (''total_jobs'', JInt (int totalJobs)),
      (''failed_jobs'', JInt (int failedCount)),
      (''logs'', JArray logResults),
      (''return_format'', JObject [(''content'', JBool returnContent),
                                    (''urls'', JBool (\<not> returnContent))])]"

definition handleFailedJobLogs ::
  "actions \<Rightarrow> string \<Rightarrow> string \<Rightarrow> int \<Rightarrow> bool \<Rightarrow> api_call list \<times> (failure + CallToolResult)" where
  "handleFailedJobLogs w owner repo runID returnContent =
     (case ListWorkflowJobs w owner repo runID of
        Inl err \<Rightarrow>
          ([ListWorkflowJobsCall owner repo runID],
           Inr (ToolResultError (''failed to list workflow jobs: '' @ err)))
      | Inr jobs \<Rightarrow>
          (let failedJobs = filter (\<lambda>job. Conclusion job = ''failure'') jobs
           in if length failedJobs = 0 then
                ([ListWorkflowJobsCall owner repo runID],
                 Inr (ToolResultText
                   (case Marshal w (JObject
                        [(''message'', JString ''No failed jobs found in this workflow run''),
                         (''run_id'', JInt runID),
                         (''total_jobs'', JInt (int (length jobs))),
                         (''failed_jobs'', JInt 0)]) of
                      Inl err \<Rightarrow> [] | Inr r \<Rightarrow> r)))
              else
                (case collectLogs w owner repo returnContent failedJobs of
                   (calls, logResults) \<Rightarrow>
                     (case Marshal w (JObject (failedJobsResult runID (length jobs)
                                        (length failedJobs) logResults returnContent)) of
                        Inl err \<Rightarrow>
                          (ListWorkflowJobsCall owner repo runID # calls,
                           Inl (Err (''failed to marshal response: '' @ err)))
                      | Inr r \<Rightarrow>
                          (ListWorkflowJobsCall owner repo runID # calls,
                           Inr (ToolResultText r))))))"

definition handleSingleJobLogs ::
  "actions \<Rightarrow> string \<Rightarrow> string \<Rightarrow> int \<Rightarrow> bool \<Rightarrow> api_call list \<times> (failure + CallToolResult)" where
  "handleSingleJobLogs w owner repo jobID returnContent =
     (case getJobLogData w owner repo jobID [] returnContent of
        (calls, Inl err) \<Rightarrow> (calls, Inr (ToolResultError err))
      | (calls, Inr jobResult) \<Rightarrow>
          (case Marshal w (JObject jobResult) of
             Inl err \<Rightarrow> (calls, Inl (Err (''failed to marshal response: '' @ err)))
           | Inr r \<Rightarrow> (calls, Inr (ToolResultText r))))"

text \<open>
  The handler of the tool. An error of an accessor becomes a tool-level error result;
  a failure of \<open>getClient\<close> is returned as the error of the call.
\<close>

definition GetJobLogs :: "actions \<Rightarrow> tool_arguments \<Rightarrow> api_call list \<times> (failure + CallToolResult)" where
  "GetJobLogs w args =
     (case RequiredParam_string w args ''owner'' of
        Inl err \<Rightarrow> ([], Inr (ToolResultError err))
      | Inr owner \<Rightarrow>
     (case RequiredParam_string w args ''repo'' of
        Inl err \<Rightarrow> ([], Inr (ToolResultError err))
      | Inr repo \<Rightarrow>
     (case OptionalIntParam w args ''job_id'' of
        Inl err \<Rightarrow> ([], Inr (ToolResultError err))
      | Inr jobID \<Rightarrow>
     (case OptionalIntParam w args ''run_id'' of
        Inl err \<Rightarrow> ([], Inr (ToolResultError err))
      | Inr runID \<Rightarrow>
     (case OptionalParam_bool w args ''failed_only'' of
        Inl err \<Rightarrow> ([], Inr (ToolResultError err))
      | Inr failedOnly \<Rightarrow>
     (case OptionalParam_bool w args ''return_content'' of
        Inl err \<Rightarrow> ([], Inr (ToolResultError err))
      | Inr returnContent \<Rightarrow>
     (case client w of
        Some err \<Rightarrow> ([], Inl (Err (''failed to get GitHub client: '' @ err)))
      | None \<Rightarrow>
          if failedOnly \<and> runID = 0 then
            ([], Inr (ToolResultError ''run_id is required when failed_only is true''))
          else if \<not> failedOnly \<and> jobID = 0 then
            ([], Inr (ToolResultError ''job_id is required when failed_only is false''))
          else if failedOnly \<and> runID > 0 then
            handleFailedJobLogs w owner repo runID returnContent
          else if jobID > 0 then
            handleSingleJobLogs w owner repo jobID returnContent
          else
            ([], Inr (ToolResultError (''Either job_id must be provided for single job logs, '' @
                        ''or run_id with failed_only=true for failed job logs''))))))))))"

text \<open>
  The setting of the repository's test \<open>Test_GetJobLogs\<close>, "successful failed jobs
  logs": run 456 has three jobs, of which the second and the third failed. Here the logs
  of job 3 cannot be fetched. \<open>renderJSON\<close> stands in for \<open>json.Marshal\<close>: it writes
  the value without escaping and keeps the order of the keys.
\<close>

fun renderJSON :: "jval \<Rightarrow> string" where
  "renderJSON (JString s) = [CHR 0x22] @ s @ [CHR 0x22]"
| "renderJSON (JInt i) = show_int i"
| "renderJSON (JBool b) = (if b then ''true'' else ''false'')"
| "renderJSON (JArray vs) = ''['' @ Join (map renderJSON vs) '','' @ '']''"
| "renderJSON (JObject kvs) =
     ''{'' @ Join (map (\<lambda>kv. [CHR 0x22] @ fst kv @ [CHR 0x22] @ '':'' @ renderJSON (snd kv)) kvs) '',''
       @ ''}''"

definition testJobs :: "WorkflowJob list" where
  "testJobs =
     [\<lparr>job_ID = 1, job_Name = ''test-job-1'', Conclusion = ''success''\<rparr>,
      \<lparr>job_ID = 2, job_Name = ''test-job-2'', Conclusion = ''failure''\<rparr>,
      \<lparr>job_ID = 3, job_Name = ''test-job-3'', Conclusion = ''failure''\<rparr>]"

definition testActions :: "go_error option \<Rightarrow> actions" where
  "testActions clientError =
     \<lparr>client = clientError,
      ListWorkflowJobs = (\<lambda>owner repo runID.
         if runID = 456 then Inr testJobs else Inl ''404 Not Found''),
      GetWorkflowJobLogs = (\<lambda>owner repo jobID.
         if jobID = 3 then Inl ''404 Not Found''
         else Inr (''https://github.com/logs/job/'' @ show_int jobID)),
      httpGet = (\<lambda>url. Inr (200, Inr ''log'')),
      TrimSpace = (\<lambda>s. s),
      Marshal = (\<lambda>v. Inr (renderJSON v)),
      typeErrorText = (\<lambda>p. ''parameter '' @ p @ '' has the wrong type'')\<rparr>"

definition toolArguments :: "(string \<times> argval) list \<Rightarrow> tool_arguments" where
  "toolArguments kvs = map_of ([(''owner'', AString ''owner''), (''repo'', AString ''repo'')] @ kvs)"

section \<open>package toolsets and the default toolset group\<close>

subsection \<open>Toolsets and groups\<close>

text \<open>
  Modelled from the spec: package toolsets (\<open>Toolset\<close>, \<open>ToolsetGroup\<close> and their
  methods) is not among the sources; only its callers \<open>DefaultToolsetGroup\<close> and
  \<open>InitDynamicToolset\<close> are. The definitions of this subsection follow sections 3 and
  4.1 of the specification. A toolset has a name, a description, the flag \<open>Enabled\<close>
  (false by default) and ordered collections of read operations, write operations and
  resource templates. A group owns an ordered collection of toolsets keyed by name and a
  flag \<open>readOnly\<close> fixed at construction. An operation is identified by its name.
\<close>

type_synonym ServerTool = string

record Toolset =
  Name :: string
  Description :: string
  Enabled :: bool
  readTools :: "ServerTool list"
  writeTools :: "ServerTool list"
  resourceTemplates :: "string list"

record ToolsetGroup =
  Toolsets :: "Toolset list"
  readOnly :: bool

datatype toolset_error = DuplicateToolset string | UnknownToolset string

text \<open>Modelled from the spec: creates an empty group with a fixed read-only policy.\<close>

definition NewToolsetGroup :: "bool \<Rightarrow> ToolsetGroup" where
  "NewToolsetGroup ro = \<lparr>Toolsets = [], readOnly = ro\<rparr>"

text \<open>Modelled from the spec: a new toolset is disabled and has no operations.\<close>

definition NewToolset :: "string \<Rightarrow> string \<Rightarrow> Toolset" where
  "NewToolset name description =
     \<lparr>Name = name, Description = description, Enabled = False,
      readTools = [], writeTools = [], resourceTemplates = []\<rparr>"

text \<open>
  Modelled from the spec: the three registrations append to the toolset's collections.
  Write operations are retained whatever the mode of the group; it is the listing that
  filters them out.
\<close>

definition AddReadTools :: "Toolset \<Rightarrow> ServerTool list \<Rightarrow> Toolset" where
  "AddReadTools t tools = t\<lparr>readTools := readTools t @ tools\<rparr>"

definition AddWriteTools :: "Toolset \<Rightarrow> ServerTool list \<Rightarrow> Toolset" where
  "AddWriteTools t tools = t\<lparr>writeTools := writeTools t @ tools\<rparr>"

definition AddResourceTemplates :: "Toolset \<Rightarrow> string list \<Rightarrow> Toolset" where
  "AddResourceTemplates t templates = t\<lparr>resourceTemplates := resourceTemplates t @ templates\<rparr>"

text \<open>
  Modelled from the spec: \<open>AddToolset\<close> registers a toolset by name and rejects a name
  that already exists.
\<close>

definition AddToolset :: "ToolsetGroup \<Rightarrow> Toolset \<Rightarrow> toolset_error + ToolsetGroup" where
  "AddToolset tg ts =
     (if Name ts \<in> set (map Name (Toolsets tg)) then Inl (DuplicateToolset (Name ts))
      else Inr (tg\<lparr>Toolsets := Toolsets tg @ [ts]\<rparr>))"

text \<open>
  Modelled from the spec: \<open>EnableToolset\<close> sets \<open>Enabled\<close> on the named toolset and
  fails with \<open>UnknownToolset\<close> when there is none.
\<close>

definition EnableToolset :: "ToolsetGroup \<Rightarrow> string \<Rightarrow> toolset_error + ToolsetGroup" where
  "EnableToolset tg name =
     (if name \<in> set (map Name (Toolsets tg))
      then Inr (tg\<lparr>Toolsets :=
                  map (\<lambda>ts. if Name ts = name then ts\<lparr>Enabled := True\<rparr> else ts) (Toolsets tg)\<rparr>)
      else Inl (UnknownToolset name))"

text \<open>
  The calls that build and change a group after its construction. A call that fails
  reports its error and leaves the group as it was.
\<close>

datatype group_call = CallAddToolset Toolset | CallEnableToolset string

fun applyCall :: "ToolsetGroup \<Rightarrow> group_call \<Rightarrow> ToolsetGroup" where
  "applyCall tg (CallAddToolset ts) = (case AddToolset tg ts of Inl e \<Rightarrow> tg | Inr tg' \<Rightarrow> tg')"
| "applyCall tg (CallEnableToolset name) =
     (case EnableToolset tg name of Inl e \<Rightarrow> tg | Inr tg' \<Rightarrow> tg')"

subsection \<open>The toolsets of the server\<close>

text \<open>
  \<open>InitDynamicToolset\<close> and \<open>DefaultToolsetGroup\<close>, from the sources. A tool is
  named after the Go function that builds it.
\<close>

definition InitDynamicToolset :: Toolset where
  "InitDynamicToolset =
     (AddReadTools
        (NewToolset ''dynamic''
           (''Discover GitHub MCP tools that can help achieve tasks by enabling additional sets of tools, '' @
            ''you can control the enablement of any toolset to access its tools when this toolset is enabled.''))
        [''ListAvailableToolsets'', ''GetToolsetsTools'', ''EnableToolset''])
     \<lparr>Enabled := True\<rparr>"

definition DefaultToolsetGroup :: "bool \<Rightarrow> ToolsetGroup" where
  "DefaultToolsetGroup ro =
     (let tsg = NewToolsetGroup ro;
          repos =
            AddResourceTemplates
              (AddWriteTools
                 (AddReadTools (NewToolset ''repos'' ''GitHub Repository related tools'')
                    [''SearchRepositories'', ''GetFileContents'', ''ListCommits'', ''SearchCode'',
                     ''GetCommit'', ''ListBranches'', ''ListTags'', ''GetTag''])
                 [''CreateOrUpdateFile'', ''CreateRepository'', ''ForkRepository'',
                  ''CreateBranch'', ''PushFiles'', ''DeleteFile''])
              [''GetRepositoryResourceContent'', ''GetRepositoryResourceBranchContent'',
               ''GetRepositoryResourceCommitContent'', ''GetRepositoryResourceTagContent'',
               ''GetRepositoryResourcePrContent''];
          issues =
            AddWriteTools
              (AddReadTools (NewToolset ''issues'' ''GitHub Issues related tools'')
                 [''GetIssue'', ''SearchIssues'', ''ListIssues'', ''GetIssueComments''])
              [''CreateIssue'', ''AddIssueComment'', ''UpdateIssue'', ''AssignCopilotToIssue''];
          users =
            AddReadTools (NewToolset ''users'' ''GitHub User related tools'') [''SearchUsers''];
          pullRequests =
            AddWriteTools
              (AddReadTools (NewToolset ''pull_requests'' ''GitHub Pull Request related tools'')
                 [''GetPullRequest'', ''ListPullRequests'', ''GetPullRequestFiles'',
                  ''GetPullRequestStatus'', ''GetPullRequestComments'', ''GetPullRequestReviews'',
                  ''GetPullRequestDiff''])
              [''MergePullRequest'', ''UpdatePullRequestBranch'', ''CreatePullRequest'',
               ''UpdatePullRequest'', ''RequestCopilotReview'',
               ''CreateAndSubmitPullRequestReview'', ''CreatePendingPullRequestReview'',
               ''AddPullRequestReviewCommentToPendingReview'', ''SubmitPendingPullRequestReview'',
               ''DeletePendingPullRequestReview''];
          projects =
            AddWriteTools
              (AddReadTools (NewToolset ''projects'' ''GitHub Projects V2 management tools'')
                 [''ListProjects'', ''GetProjectFields'', ''GetProjectItems''])
              [''CreateProjectIssue'', ''AddIssueToProject'', ''UpdateProjectItemField'',
               ''CreateDraftIssue'', ''DeleteProjectItem''];
          codeSecurity =
            AddReadTools
              (NewToolset ''code_security''
                 ''Code security related tools, such as GitHub Code Scanning'')
              [''GetCodeScanningAlert'', ''ListCodeScanningAlerts''];
          secretProtection =
            AddReadTools
              (NewToolset ''secret_protection''
                 ''Secret protection related tools, such as GitHub Secret Scanning'')
              [''GetSecretScanningAlert'', ''ListSecretScanningAlerts''];
          notifications =
            AddWriteTools
              (AddReadTools (NewToolset ''notifications'' ''GitHub Notifications related tools'')
                 [''ListNotifications'', ''GetNotificationDetails''])
              [''DismissNotification'', ''MarkAllNotificationsRead'',
               ''ManageNotificationSubscription'', ''ManageRepositoryNotificationSubscription''];
          actions =
            AddWriteTools
              (AddReadTools
                 (NewToolset ''actions'' ''GitHub Actions workflows and CI/CD operations'')
                 [''ListWorkflows'', ''ListWorkflowRuns'', ''GetWorkflowRun'', ''GetWorkflowRunLogs'',
                  ''ListWorkflowJobs'', ''GetJobLogs'', ''ListWorkflowRunArtifacts'',
                  ''DownloadWorkflowRunArtifact'', ''GetWorkflowRunUsage''])
              [''RunWorkflow'', ''RerunWorkflowRun'', ''RerunFailedJobs'', ''CancelWorkflowRun'',
               ''DeleteWorkflowRunLogs''];
          experiments =
            NewToolset ''experiments'' ''Experimental features that are not considered stable yet'';
          contextTools =
            AddReadTools
              (NewToolset ''context''
                 ''Tools that provide context about the current user and GitHub context you are operating in'')
              [''GetMe'']
      in foldl applyCall tsg
           (map CallAddToolset
              [contextTools, repos, issues, users, pullRequests, projects, actions,
               codeSecurity, secretProtection, notifications, experiments]))"

subsection \<open>Exposure\<close>

text \<open>
  Modelled from the spec: the exposure algorithm of section 4.1. The operations presented
  to a caller are, over all enabled toolsets in registration order, the read operations
  of the toolset and, when the group is not read-only, its write operations; plus the
  always-on dynamic-discovery operations.
\<close>

definition exposedTools :: "ToolsetGroup \<Rightarrow> ServerTool list" where
  "exposedTools tg =
     concat (map (\<lambda>ts. if Enabled ts
                        then readTools ts @ (if readOnly tg then [] else writeTools ts)
                        else [])
               (Toolsets tg))
     @ readTools InitDynamicToolset"

text \<open>
  Modelled from the spec: the invariant of the data model, operation names are unique
  across the entire group (the dynamic-discovery operations included).
\<close>

definition uniqueToolNames :: "ToolsetGroup \<Rightarrow> bool" where
  "uniqueToolNames tg =
     distinct (concat (map readTools (Toolsets tg)) @ readTools InitDynamicToolset
               @ concat (map writeTools (Toolsets tg)))"

section \<open>URL resolution\<close>

text \<open>
  C2. With both SHA and Ref set, \<open>URLFromOpts\<close> returns the commit URL built from the
  SHA, \<open>base/owner/repo/<SHA>/path\<close>: the SHA selector takes precedence over the Ref,
  for every owner, repo and path, and the result does not depend on the Ref.
\<close>

theorem URLFromOpts_sha_precedence:
  assumes "SHA opts \<noteq> []" and "Ref opts \<noteq> []"
  shows "URLFromOpts jp c (Some opts) owner repo path
           = jp (client_url c) [owner, repo, SHA opts, path]
       \<and> URLFromOpts jp c (Some opts) owner repo path
           = commitURL jp c owner repo (SHA opts) path
       \<and> (\<forall>ref. URLFromOpts jp c (Some (opts\<lparr>Ref := ref\<rparr>)) owner repo path
                  = URLFromOpts jp c (Some opts) owner repo path)"
  using assms by (simp add: URLFromOpts_def commitURL_def)

theorem URLFromOpts_sha_precedence_witness:
  "URLFromOpts joinSegments \<lparr>client_url = ''https://raw.example.com/''\<rparr>
      (Some \<lparr>Ref = ''refs/heads/main'', SHA = ''abc123''\<rparr>) ''octocat'' ''hello'' ''README.md''
    = ''https://raw.example.com/octocat/hello/abc123/README.md''"
  using URLFromOpts_sha_precedence
    [of "\<lparr>Ref = ''refs/heads/main'', SHA = ''abc123''\<rparr>" joinSegments
        "\<lparr>client_url = ''https://raw.example.com/''\<rparr>" "''octocat''" "''hello''" "''README.md''"]
  by (simp add: joinSegments_def)

text \<open>
  C3. With no options (nil), or with both SHA and Ref empty, \<open>URLFromOpts\<close> returns
  the URL of the default branch, \<open>base/owner/repo/HEAD/path\<close>.
\<close>

theorem URLFromOpts_default_HEAD:
  assumes "opts = None \<or> (\<exists>o'. opts = Some o' \<and> SHA o' = [] \<and> Ref o' = [])"
  shows "URLFromOpts jp c opts owner repo path = jp (client_url c) [owner, repo, ''HEAD'', path]"
  using assms by (auto simp add: URLFromOpts_def refURL_def)

theorem URLFromOpts_default_HEAD_witness:
  "URLFromOpts joinSegments \<lparr>client_url = ''https://raw.example.com/''\<rparr>
      None ''octocat'' ''hello'' ''README.md''
    = ''https://raw.example.com/octocat/hello/HEAD/README.md''
   \<and> URLFromOpts joinSegments \<lparr>client_url = ''https://raw.example.com/''\<rparr>
      (Some \<lparr>Ref = [], SHA = []\<rparr>) ''octocat'' ''hello'' ''README.md''
    = ''https://raw.example.com/octocat/hello/HEAD/README.md''"
  using URLFromOpts_default_HEAD
    [of None joinSegments "\<lparr>client_url = ''https://raw.example.com/''\<rparr>"
        "''octocat''" "''hello''" "''README.md''"]
    URLFromOpts_default_HEAD
    [of "Some \<lparr>Ref = [], SHA = []\<rparr>" joinSegments "\<lparr>client_url = ''https://raw.example.com/''\<rparr>"
        "''octocat''" "''hello''" "''README.md''"]
  by (simp add: joinSegments_def)

section \<open>The repository content handler\<close>

lemmas test_defs = fetchRawContent_def testWorld_def testRequest_def stringsArg_def requestPath_def
  selectorOpts_def pullRequestOpts_def HasSuffix_def GetRawContent_def URLFromOpts_def refURL_def
  commitURL_def joinSegments_def Let_def okResponse_def failResponse_def fileRequest_def
  GetSHA_def GetHead_def

lemma handler_of_fetch:
  "fetchRawContent w request = (calls, Inr (path, resp)) \<Longrightarrow>
   RepositoryResourceContentsHandler w request
     = (calls, responseContents w (URI request) path resp)"
  by (simp add: RepositoryResourceContentsHandler_def)

lemma handler_calls:
  "fst (RepositoryResourceContentsHandler w request) = fst (fetchRawContent w request)"
  by (auto simp add: RepositoryResourceContentsHandler_def split: prod.splits sum.splits)

lemma pullRequestOpts_calls:
  "pullRequestOpts w args owner repo ro = (calls, r) \<Longrightarrow>
   calls = [] \<or> (\<exists>n. calls = [PullRequestsGet owner repo n])"
  by (auto simp add: pullRequestOpts_def split: option.splits list.splits sum.splits)

lemma GetRawContent_calls:
  "GetRawContent w c owner repo path opts = (calls, (Some resp, e)) \<Longrightarrow>
   calls = [RawContentGet (URLFromOpts (JoinPath w) c opts owner repo path)]"
  by (auto simp add: GetRawContent_def Let_def split: option.splits)

text \<open>
  Whenever the first half of the handler obtains a response, the requests sent are the
  raw content request, preceded by the pull request lookup if there was one.
\<close>

lemma fetch_calls:
  assumes "fetchRawContent w request = (calls, Inr (path, resp))"
  shows "\<exists>url. calls = [RawContentGet url]
           \<or> (\<exists>owner repo n. calls = [PullRequestsGet owner repo n, RawContentGet url])"
  using assms
  apply (simp add: fetchRawContent_def Let_def
           split: option.splits list.splits prod.splits sum.splits if_splits)
  apply (auto dest!: pullRequestOpts_calls GetRawContent_calls)
  done

lemma responseContents_cong:
  "mimeLookup w' = mimeLookup w \<Longrightarrow> StatusCode r' = StatusCode r \<Longrightarrow>
   ContentType r' = ContentType r \<Longrightarrow> Body r' = Body r \<Longrightarrow>
   responseContents w' uri path r' = responseContents w uri path r"
  by (simp add: responseContents_def TypeByExtension_def Let_def split: sum.splits)

text \<open>The requests of the tests, run through the first half of the handler.\<close>

lemma fetch_readme:
  "fetchRawContent (testWorld resp) (fileRequest [''README.md''] [])
     = ([RawContentGet ''https://raw.example.com/owner/repo/HEAD/README.md''],
        Inr (''README.md'', resp))"
  by (simp add: test_defs)

lemma fetch_png:
  "fetchRawContent (testWorld resp) (fileRequest [''data.png''] [])
     = ([RawContentGet ''https://raw.example.com/owner/repo/HEAD/data.png''],
        Inr (''data.png'', resp))"
  by (simp add: test_defs)

lemma fetch_branch:
  "fetchRawContent (testWorld resp) (fileRequest [''nonexistent.md''] [(''branch'', [''main''])])
     = ([RawContentGet ''https://raw.example.com/owner/repo/refs/heads/main/nonexistent.md''],
        Inr (''nonexistent.md'', resp))"
  by (simp add: test_defs)

lemma encode_testBody:
  "EncodeToString testBody = ''IyBUZXN0IFJlcG9zaXRvcnkKClRoaXMgaXMgYSB0ZXN0IHJlcG9zaXRvcnku''"
  by code_simp

text \<open>
  C4. For a response with status 200 the MIME type of the resource is
  \<open>text/markdown\<close> when the extension of the path is \<open>.md\<close>, whatever the server's
  header says; otherwise the \<open>Content-Type\<close> header when it is not empty; otherwise
  the type the extension-to-MIME lookup gives for the extension; otherwise empty.
\<close>

theorem content_mime_type_order:
  assumes "fetchRawContent w request = (calls, Inr (path, resp))"
    and "StatusCode resp = 200" and "Body resp = Inr content"
  shows "\<exists>res. RepositoryResourceContentsHandler w request = (calls, Inr [res]) \<and>
     MIMEType res =
       (if Ext path = ''.md'' then ''text/markdown''
        else if ContentType resp \<noteq> [] then ContentType resp
        else case mimeLookup w (Ext path) of Some t \<Rightarrow> t | None \<Rightarrow> [])"
  using assms
  by (simp add: handler_of_fetch responseContents_def TypeByExtension_def Let_def)

theorem content_mime_type_order_witness:
  "(\<exists>res. RepositoryResourceContentsHandler (testWorld (okResponse ''text/plain'' ''# Test file''))
            (fileRequest [''README.md''] [])
          = ([RawContentGet ''https://raw.example.com/owner/repo/HEAD/README.md''], Inr [res])
        \<and> MIMEType res = ''text/markdown'')
   \<and> (\<exists>res. RepositoryResourceContentsHandler (testWorld (okResponse ''image/gif'' ''GIF89a''))
            (fileRequest [''data.png''] [])
          = ([RawContentGet ''https://raw.example.com/owner/repo/HEAD/data.png''], Inr [res])
        \<and> MIMEType res = ''image/gif'')
   \<and> (\<exists>res. RepositoryResourceContentsHandler (testWorld (okResponse [] ''PNG''))
            (fileRequest [''data.png''] [])
          = ([RawContentGet ''https://raw.example.com/owner/repo/HEAD/data.png''], Inr [res])
        \<and> MIMEType res = ''image/png'')
   \<and> (\<exists>res. RepositoryResourceContentsHandler (testWorld (okResponse [] ''data''))
            (fileRequest [''nonexistent.md'', ''LICENSE''] [(''branch'', [''main''])])
          = ([RawContentGet
               ''https://raw.example.com/owner/repo/refs/heads/main/nonexistent.md/LICENSE''],
              Inr [res])
        \<and> MIMEType res = [])"
proof -
  have f: "fetchRawContent (testWorld (okResponse [] ''data''))
             (fileRequest [''nonexistent.md'', ''LICENSE''] [(''branch'', [''main''])])
     = ([RawContentGet ''https://raw.example.com/owner/repo/refs/heads/main/nonexistent.md/LICENSE''],
        Inr (''nonexistent.md/LICENSE'', okResponse [] ''data''))"
    by (simp add: test_defs)
  show ?thesis
    using
      content_mime_type_order [OF fetch_readme [of "okResponse ''text/plain'' ''# Test file''"],
        where content = "''# Test file''"]
      content_mime_type_order [OF fetch_png [of "okResponse ''image/gif'' ''GIF89a''"],
        where content = "''GIF89a''"]
      content_mime_type_order [OF fetch_png [of "okResponse [] ''PNG''"], where content = "''PNG''"]
      content_mime_type_order [OF f, where content = "''data''"]
    by (simp add: okResponse_def Ext_def testWorld_def)
qed

text \<open>
  C5. For a response with status 200, a MIME type that begins with \<open>text\<close> or
  \<open>application\<close> makes the body a text resource, and every other MIME type (the
  empty one too) makes it a blob resource holding the base64 encoding of the body. The
  result is a function of the path, the header and the bytes: a second call with the
  same path, header, bytes and MIME table (and the same URI, which the resource
  repeats) returns the same resource.
\<close>

theorem content_text_or_blob:
  assumes "fetchRawContent w request = (calls, Inr (path, resp))"
    and "StatusCode resp = 200" and "Body resp = Inr content"
  shows "(\<exists>mime. mime = (if Ext path = ''.md'' then ''text/markdown''
                         else if ContentType resp \<noteq> [] then ContentType resp
                         else case mimeLookup w (Ext path) of Some t \<Rightarrow> t | None \<Rightarrow> []) \<and>
            RepositoryResourceContentsHandler w request =
              (calls, Inr [if HasPrefix mime ''text'' \<or> HasPrefix mime ''application''
                           then TextResourceContents (URI request) mime content
                           else BlobResourceContents (URI request) mime (EncodeToString content)]))
       \<and> (\<forall>w' request' calls' resp'.
            fetchRawContent w' request' = (calls', Inr (path, resp')) \<and> StatusCode resp' = 200
            \<and> ContentType resp' = ContentType resp \<and> Body resp' = Inr content
            \<and> mimeLookup w' = mimeLookup w \<and> URI request' = URI request
            \<longrightarrow> snd (RepositoryResourceContentsHandler w' request')
                = snd (RepositoryResourceContentsHandler w request))"
proof (intro conjI allI impI)
  show "\<exists>mime. mime = (if Ext path = ''.md'' then ''text/markdown''
                       else if ContentType resp \<noteq> [] then ContentType resp
                       else case mimeLookup w (Ext path) of Some t \<Rightarrow> t | None \<Rightarrow> []) \<and>
          RepositoryResourceContentsHandler w request =
            (calls, Inr [if HasPrefix mime ''text'' \<or> HasPrefix mime ''application''
                         then TextResourceContents (URI request) mime content
                         else BlobResourceContents (URI request) mime (EncodeToString content)])"
    using assms
    by (simp add: handler_of_fetch responseContents_def TypeByExtension_def Let_def)
next
  fix w' request' calls' resp'
  assume h: "fetchRawContent w' request' = (calls', Inr (path, resp')) \<and> StatusCode resp' = 200
          \<and> ContentType resp' = ContentType resp \<and> Body resp' = Inr content
          \<and> mimeLookup w' = mimeLookup w \<and> URI request' = URI request"
  have "responseContents w' (URI request) path resp' = responseContents w (URI request) path resp"
    using h assms by (intro responseContents_cong) simp_all
  then show "snd (RepositoryResourceContentsHandler w' request')
               = snd (RepositoryResourceContentsHandler w request)"
    using h assms(1) by (simp add: handler_of_fetch)
qed

theorem content_text_or_blob_witness:
  "RepositoryResourceContentsHandler (testWorld (okResponse ''image/png'' testBody))
       (fileRequest [''data.png''] [])
     = ([RawContentGet ''https://raw.example.com/owner/repo/HEAD/data.png''],
        Inr [BlobResourceContents [] ''image/png''
               ''IyBUZXN0IFJlcG9zaXRvcnkKClRoaXMgaXMgYSB0ZXN0IHJlcG9zaXRvcnku''])
   \<and> RepositoryResourceContentsHandler (testWorld (okResponse ''text/markdown'' testBody))
       (fileRequest [''README.md''] [])
     = ([RawContentGet ''https://raw.example.com/owner/repo/HEAD/README.md''],
        Inr [TextResourceContents [] ''text/markdown'' testBody])
   \<and> RepositoryResourceContentsHandler (testWorld (okResponse ''application/json'' ''{}''))
       (fileRequest [''data.png''] [])
     = ([RawContentGet ''https://raw.example.com/owner/repo/HEAD/data.png''],
        Inr [TextResourceContents [] ''application/json'' ''{}''])"
  using
    content_text_or_blob [OF fetch_png [of "okResponse ''image/png'' testBody"],
      where content = testBody]
    content_text_or_blob [OF fetch_readme [of "okResponse ''text/markdown'' testBody"],
      where content = testBody]
    content_text_or_blob [OF fetch_png [of "okResponse ''application/json'' ''{}''"],
      where content = "''{}''"]
  by (simp add: okResponse_def Ext_def HasPrefix_def encode_testBody fileRequest_def
        testRequest_def)

text \<open>
  C6, as the code has it. Take a request with owner and repo whose path is empty or ends
  in a slash. Without the selector \<open>prNumber\<close> it is refused with "directories are
  not supported" before any request is sent, for every combination of \<open>sha\<close>,
  \<open>branch\<close> and \<open>tag\<close>. With \<open>prNumber\<close> the pull request is resolved before
  the path is tested: when the client is not available or the number does not parse, the
  handler returns that error and sends nothing; otherwise the pull request is looked up
  over the network, and the handler returns the error of the lookup when it fails, and
  refuses the path with "directories are not supported" when it succeeds.
\<close>

theorem directory_paths_rejected:
  assumes "stringsArg (Arguments request) ''owner'' = Some (owner # os)"
    and "stringsArg (Arguments request) ''repo'' = Some (repo # rs)"
    and "requestPath (Arguments request) = path"
    and "path = [] \<or> HasSuffix path ''/''"
  shows "(stringsArg (Arguments request) ''prNumber'' = None
          \<or> stringsArg (Arguments request) ''prNumber'' = Some [] \<longrightarrow>
            RepositoryResourceContentsHandler w request
              = ([], Inl (Err (''directories are not supported: '' @ path))))
       \<and> (\<forall>n ns.
            stringsArg (Arguments request) ''prNumber'' = Some (n # ns) \<longrightarrow>
            RepositoryResourceContentsHandler w request
              = (case getClient w of
                   Some e \<Rightarrow> ([], Inl (Err (''failed to get GitHub client: '' @ e)))
                 | None \<Rightarrow>
                    (case Atoi w n of
                       Inl e \<Rightarrow> ([], Inl (Err (''invalid pull request number: '' @ e)))
                     | Inr prNum \<Rightarrow>
                        (case PullRequests_Get w owner repo prNum of
                           Inl e \<Rightarrow>
                             ([PullRequestsGet owner repo prNum],
                              Inl (Err (''failed to get pull request: '' @ e)))
                         | Inr pr \<Rightarrow>
                             ([PullRequestsGet owner repo prNum],
                              Inl (Err (''directories are not supported: '' @ path)))))))"
  using assms
  by (auto simp add: RepositoryResourceContentsHandler_def fetchRawContent_def pullRequestOpts_def
        split: option.splits sum.splits)

theorem directory_paths_rejected_witness:
  "RepositoryResourceContentsHandler (testWorld (okResponse ''text/plain'' testBody))
       (fileRequest [''docs'', []] [(''sha'', [''abc123'']), (''branch'', [''main'']), (''tag'', [''v1.0.0''])])
     = ([], Inl (Err ''directories are not supported: docs/''))
   \<and> RepositoryResourceContentsHandler (testWorld (okResponse ''text/plain'' testBody))
       (fileRequest [''docs'', []] [(''prNumber'', [''42''])])
     = ([PullRequestsGet ''owner'' ''repo'' 42], Inl (Err ''directories are not supported: docs/''))
   \<and> RepositoryResourceContentsHandler (testWorld (okResponse ''text/plain'' testBody))
       (fileRequest [''docs'', []] [(''prNumber'', [''abc''])])
     = ([], Inl (Err ''invalid pull request number: invalid syntax''))
   \<and> RepositoryResourceContentsHandler
       ((testWorld (okResponse ''text/plain'' testBody))\<lparr>getClient := Some ''no token''\<rparr>)
       (fileRequest [''docs'', []] [(''prNumber'', [''42''])])
     = ([], Inl (Err ''failed to get GitHub client: no token''))
   \<and> RepositoryResourceContentsHandler
       ((testWorld (okResponse ''text/plain'' testBody))\<lparr>Atoi := (\<lambda>s. Inr 7)\<rparr>)
       (fileRequest [''docs'', []] [(''prNumber'', [''7''])])
     = ([PullRequestsGet ''owner'' ''repo'' 7], Inl (Err ''failed to get pull request: 404 Not Found''))"
proof -
  have o: "stringsArg (Arguments (fileRequest [''docs'', []] sel)) ''owner'' = Some [''owner'']" for sel
    by (simp add: fileRequest_def testRequest_def stringsArg_def)
  have r: "stringsArg (Arguments (fileRequest [''docs'', []] sel)) ''repo'' = Some [''repo'']" for sel
    by (simp add: fileRequest_def testRequest_def stringsArg_def)
  have p: "requestPath (Arguments (fileRequest [''docs'', []] sel)) = ''docs/''" for sel
    by (simp add: fileRequest_def testRequest_def stringsArg_def requestPath_def)
  have d: "''docs/'' = [] \<or> HasSuffix ''docs/'' ''/''"
    by (simp add: HasSuffix_def)
  have n: "stringsArg (Arguments (fileRequest [''docs'', []] [(''prNumber'', [x])])) ''prNumber''
             = Some [x]" for x
    by (simp add: fileRequest_def testRequest_def stringsArg_def)
  have s: "stringsArg (Arguments (fileRequest [''docs'', []]
               [(''sha'', [''abc123'']), (''branch'', [''main'']), (''tag'', [''v1.0.0''])]))
             ''prNumber'' = None"
    by (simp add: fileRequest_def testRequest_def stringsArg_def)
  show ?thesis
    using
      directory_paths_rejected [OF o r p d, THEN conjunct1, rule_format, OF disjI1, OF s,
        of "testWorld (okResponse ''text/plain'' testBody)"]
      directory_paths_rejected [OF o r p d, THEN conjunct2, rule_format, OF n,
        of "testWorld (okResponse ''text/plain'' testBody)" "''42''"]
      directory_paths_rejected [OF o r p d, THEN conjunct2, rule_format, OF n,
        of "testWorld (okResponse ''text/plain'' testBody)" "''abc''"]
      directory_paths_rejected [OF o r p d, THEN conjunct2, rule_format, OF n,
        of "(testWorld (okResponse ''text/plain'' testBody))\<lparr>getClient := Some ''no token''\<rparr>" "''42''"]
      directory_paths_rejected [OF o r p d, THEN conjunct2, rule_format, OF n,
        of "(testWorld (okResponse ''text/plain'' testBody))\<lparr>Atoi := (\<lambda>s. Inr 7)\<rparr>" "''7''"]
    by (simp add: testWorld_def)
qed

text \<open>
  The claim as the specification words it fails: with \<open>prNumber\<close> set and an empty
  path, the pull request is requested over the network before the path is refused.
\<close>

theorem directory_check_after_pull_request_lookup:
  "\<not> (\<forall>w request owner os repo rs.
        stringsArg (Arguments request) ''owner'' = Some (owner # os)
        \<and> stringsArg (Arguments request) ''repo'' = Some (repo # rs)
        \<and> (requestPath (Arguments request) = []
            \<or> HasSuffix (requestPath (Arguments request)) ''/'')
        \<longrightarrow> RepositoryResourceContentsHandler w request
              = ([], Inl (Err (''directories are not supported: ''
                                 @ requestPath (Arguments request)))))"
proof
  assume a: "\<forall>w request owner os repo rs.
        stringsArg (Arguments request) ''owner'' = Some (owner # os)
        \<and> stringsArg (Arguments request) ''repo'' = Some (repo # rs)
        \<and> (requestPath (Arguments request) = []
            \<or> HasSuffix (requestPath (Arguments request)) ''/'')
        \<longrightarrow> RepositoryResourceContentsHandler w request
              = ([], Inl (Err (''directories are not supported: ''
                                 @ requestPath (Arguments request))))"
  have r: "RepositoryResourceContentsHandler (testWorld (okResponse ''text/plain'' testBody))
             (fileRequest [] [(''prNumber'', [''42''])])
           = ([PullRequestsGet ''owner'' ''repo'' 42], Inl (Err ''directories are not supported: ''))"
    by (simp add: RepositoryResourceContentsHandler_def test_defs)
  have "RepositoryResourceContentsHandler (testWorld (okResponse ''text/plain'' testBody))
             (fileRequest [] [(''prNumber'', [''42''])])
           = ([], Inl (Err (''directories are not supported: ''
                 @ requestPath (Arguments (fileRequest [] [(''prNumber'', [''42''])])))))"
    by (rule a [rule_format, of _ "''owner''" "[]" "''repo''" "[]"])
       (simp add: fileRequest_def testRequest_def stringsArg_def requestPath_def)
  with r show False by simp
qed

text \<open>
  C7. A response whose status is neither 200 nor 404 becomes an error that carries the
  text of the body; a 404 becomes the error "404 Not Found", a different one; and the
  handler sends nothing after the raw content request: its requests are that one,
  preceded by the pull request lookup if there was one, so no directory listing is
  attempted.
\<close>

theorem raw_content_failure_statuses:
  assumes "fetchRawContent w request = (calls, Inr (path, resp))"
  shows "(StatusCode resp \<noteq> 200 \<and> StatusCode resp \<noteq> 404 \<and> Body resp = Inr body \<longrightarrow>
            RepositoryResourceContentsHandler w request
              = (calls, Inl (Err (''failed to fetch raw content: '' @ body))))
       \<and> (StatusCode resp = 404 \<longrightarrow>
            RepositoryResourceContentsHandler w request = (calls, Inl (Err ''404 Not Found'')))
       \<and> Err ''404 Not Found'' \<noteq> Err (''failed to fetch raw content: '' @ body)
       \<and> (\<exists>url. calls = [RawContentGet url]
             \<or> (\<exists>owner repo n. calls = [PullRequestsGet owner repo n, RawContentGet url]))"
  using assms fetch_calls [OF assms]
  by (simp add: handler_of_fetch responseContents_def)

theorem raw_content_failure_statuses_witness:
  "RepositoryResourceContentsHandler (testWorld (failResponse 500 ''Internal Server Error''))
       (fileRequest [''nonexistent.md''] [(''branch'', [''main''])])
     = ([RawContentGet ''https://raw.example.com/owner/repo/refs/heads/main/nonexistent.md''],
        Inl (Err ''failed to fetch raw content: Internal Server Error''))
   \<and> RepositoryResourceContentsHandler (testWorld (failResponse 404 ''Not Found''))
       (fileRequest [''nonexistent.md''] [(''branch'', [''main''])])
     = ([RawContentGet ''https://raw.example.com/owner/repo/refs/heads/main/nonexistent.md''],
        Inl (Err ''404 Not Found''))"
  using
    raw_content_failure_statuses
      [OF fetch_branch [of "failResponse 500 ''Internal Server Error''"],
       where body = "''Internal Server Error''"]
    raw_content_failure_statuses
      [OF fetch_branch [of "failResponse 404 ''Not Found''"],
       where body = "''Not Found''"]
  by (simp add: failResponse_def)

text \<open>
  C8. With the selector \<open>prNumber\<close> and a path that is not a directory, the handler
  looks the pull request up, takes the SHA of its head commit and requests the raw
  content at \<open>base/owner/repo/<head SHA>/path\<close>. The hypotheses are the steps the
  claim names: the client is available, the number parses, the lookup returns a pull
  request with a head SHA, the raw client is available and the request can be built.
\<close>

theorem pull_request_head_sha_selects_url:
  assumes "stringsArg (Arguments request) ''owner'' = Some (owner # os)"
    and "stringsArg (Arguments request) ''repo'' = Some (repo # rs)"
    and "stringsArg (Arguments request) ''prNumber'' = Some (n # ns)"
    and "requestPath (Arguments request) = path"
    and "path \<noteq> []" and "\<not> HasSuffix path ''/''"
    and "getClient w = None" and "Atoi w n = Inr prNum"
    and "PullRequests_Get w owner repo prNum = Inr pr"
    and "GetSHA (GetHead pr) = headSHA" and "headSHA \<noteq> []"
    and "getRawClient w = Inr c"
    and "newRequest w (JoinPath w (client_url c) [owner, repo, headSHA, path]) = None"
  shows "fst (RepositoryResourceContentsHandler w request)
           = [PullRequestsGet owner repo prNum,
              RawContentGet (JoinPath w (client_url c) [owner, repo, headSHA, path])]"
proof -
  have pr: "pullRequestOpts w (Arguments request) owner repo (selectorOpts (Arguments request))
              = ([PullRequestsGet owner repo prNum],
                 Inr ((selectorOpts (Arguments request))\<lparr>SHA := headSHA\<rparr>))"
    using assms by (simp add: pullRequestOpts_def)
  have u: "URLFromOpts (JoinPath w) c (Some ((selectorOpts (Arguments request))\<lparr>SHA := headSHA\<rparr>))
             owner repo path = JoinPath w (client_url c) [owner, repo, headSHA, path]"
    using assms by (simp add: URLFromOpts_def commitURL_def)
  have g: "fst (GetRawContent w c owner repo path
                 (Some ((selectorOpts (Arguments request))\<lparr>SHA := headSHA\<rparr>)))
             = [RawContentGet (JoinPath w (client_url c) [owner, repo, headSHA, path])]"
    using assms u by (simp add: GetRawContent_def Let_def)
  have f: "fst (fetchRawContent w request)
             = [PullRequestsGet owner repo prNum,
                RawContentGet (JoinPath w (client_url c) [owner, repo, headSHA, path])]"
    using assms(1,2,4,5,6,12) pr g
    by (auto simp add: fetchRawContent_def split: prod.splits option.splits)
  show ?thesis
    using f by (simp add: handler_calls)
qed

theorem pull_request_head_sha_selects_url_witness:
  "fst (RepositoryResourceContentsHandler (testWorld (okResponse ''text/markdown'' testBody))
          (fileRequest [''README.md''] [(''prNumber'', [''42''])]))
     = [PullRequestsGet ''owner'' ''repo'' 42,
        RawContentGet ''https://raw.example.com/owner/repo/abc123/README.md'']"
  using pull_request_head_sha_selects_url
    [of "fileRequest [''README.md''] [(''prNumber'', [''42''])]" "''owner''" "[]" "''repo''" "[]"
        "''42''" "[]" "''README.md''" "testWorld (okResponse ''text/markdown'' testBody)" 42
        "\<lparr>Head = Some \<lparr>branch_SHA = Some ''abc123''\<rparr>\<rparr>" "''abc123''"
        "\<lparr>client_url = ''https://raw.example.com/''\<rparr>"]
  by (simp add: fileRequest_def testRequest_def stringsArg_def requestPath_def HasSuffix_def
        testWorld_def GetSHA_def GetHead_def joinSegments_def)

section \<open>The logs of failed jobs\<close>

text \<open>
  The loop over the failed jobs never stops early: it requests the logs of every job,
  and its result has one entry per job.
\<close>

lemma collectLogs_calls:
  "fst (collectLogs w owner repo rc jobs)
     = concat (map (\<lambda>job. fst (getJobLogData w owner repo (job_ID job) (job_Name job) rc)) jobs)"
  by (induction jobs) (auto split: prod.splits)

lemma collectLogs_logs:
  "snd (collectLogs w owner repo rc jobs)
     = map (\<lambda>job. JObject
              (case snd (getJobLogData w owner repo (job_ID job) (job_Name job) rc) of
                 Inl err \<Rightarrow> [(''job_id'', JInt (job_ID job)),
                             (''job_name'', JString (job_Name job)),
                             (''error'', JString err)]
               | Inr res \<Rightarrow> res)) jobs"
  by (induction jobs) (auto split: prod.splits)

text \<open>
  With \<open>failed_only\<close> true and a positive \<open>run_id\<close>, the tool is
  \<open>handleFailedJobLogs\<close>.
\<close>

lemma GetJobLogs_failed_only:
  assumes "RequiredParam_string w args ''owner'' = Inr owner"
    and "RequiredParam_string w args ''repo'' = Inr repo"
    and "OptionalIntParam w args ''job_id'' = Inr jobID"
    and "OptionalIntParam w args ''run_id'' = Inr runID"
    and "OptionalParam_bool w args ''failed_only'' = Inr True"
    and "OptionalParam_bool w args ''return_content'' = Inr rc"
    and "client w = None" and "runID > 0"
  shows "GetJobLogs w args = handleFailedJobLogs w owner repo runID rc"
  using assms by (simp add: GetJobLogs_def)

text \<open>The failed jobs of the test run, and the digits of their identifiers.\<close>

lemma testJobs_failed:
  "filter (\<lambda>job. Conclusion job = ''failure'') testJobs
     = [\<lparr>job_ID = 2, job_Name = ''test-job-2'', Conclusion = ''failure''\<rparr>,
        \<lparr>job_ID = 3, job_Name = ''test-job-3'', Conclusion = ''failure''\<rparr>]"
  by (simp add: testJobs_def)

lemma show_int_2: "show_int 2 = ''2''"
  by code_simp

lemma show_int_3: "show_int 3 = ''3''"
  by code_simp

text \<open>
  C9. In failed-only mode the logs of every failed job of the run are requested, and the
  result that is marshalled has under \<open>logs\<close> one entry per failed job, in order:
  the log data of the job, or, when fetching them failed, an entry with the job's
  \<open>job_id\<close>, its \<open>job_name\<close> and the \<open>error\<close>. A failure for one job does not
  end the collection for the others. (A run without failed jobs has no entry to collect:
  the result then reports \<open>failed_jobs\<close> as zero.)
\<close>

theorem failed_job_logs_one_slot_per_job:
  assumes "ListWorkflowJobs w owner repo runID = Inr jobs"
    and "failedJobs = filter (\<lambda>job. Conclusion job = ''failure'') jobs"
  shows "\<exists>calls logs.
      length logs = length failedJobs
      \<and> calls = concat (map (\<lambda>job. fst (getJobLogData w owner repo (job_ID job) (job_Name job) rc))
                          failedJobs)
      \<and> (\<forall>i < length failedJobs.
           case snd (getJobLogData w owner repo (job_ID (failedJobs ! i))
                       (job_Name (failedJobs ! i)) rc) of
             Inl err \<Rightarrow>
               logs ! i = JObject [(''job_id'', JInt (job_ID (failedJobs ! i))),
                                   (''job_name'', JString (job_Name (failedJobs ! i))),
                                   (''error'', JString err)]
           | Inr res \<Rightarrow> logs ! i = JObject res)
      \<and> map_of (failedJobsResult runID (length jobs) (length failedJobs) logs rc) ''logs''
          = Some (JArray logs)
      \<and> handleFailedJobLogs w owner repo runID rc =
          (if failedJobs = [] then
             ([ListWorkflowJobsCall owner repo runID],
              Inr (ToolResultText
                (case Marshal w (JObject
                     [(''message'', JString ''No failed jobs found in this workflow run''),
                      (''run_id'', JInt runID),
                      (''total_jobs'', JInt (int (length jobs))),
                      (''failed_jobs'', JInt 0)]) of
                   Inl err \<Rightarrow> [] | Inr r \<Rightarrow> r)))
           else
             (ListWorkflowJobsCall owner repo runID # calls,
              case Marshal w (JObject (failedJobsResult runID (length jobs) (length failedJobs)
                                         logs rc)) of
                Inl err \<Rightarrow> Inl (Err (''failed to marshal response: '' @ err))
              | Inr r \<Rightarrow> Inr (ToolResultText r)))"
proof -
  obtain calls logs where c: "collectLogs w owner repo rc failedJobs = (calls, logs)"
    by (cases "collectLogs w owner repo rc failedJobs") auto
  have h: "handleFailedJobLogs w owner repo runID rc =
          (if failedJobs = [] then
             ([ListWorkflowJobsCall owner repo runID],
              Inr (ToolResultText
                (case Marshal w (JObject
                     [(''message'', JString ''No failed jobs found in this workflow run''),
                      (''run_id'', JInt runID),
                      (''total_jobs'', JInt (int (length jobs))),
                      (''failed_jobs'', JInt 0)]) of
                   Inl err \<Rightarrow> [] | Inr r \<Rightarrow> r)))
           else
             (ListWorkflowJobsCall owner repo runID # calls,
              case Marshal w (JObject (failedJobsResult runID (length jobs) (length failedJobs)
                                         logs rc)) of
                Inl err \<Rightarrow> Inl (Err (''failed to marshal response: '' @ err))
              | Inr r \<Rightarrow> Inr (ToolResultText r)))"
    using assms c by (simp add: handleFailedJobLogs_def split: sum.splits)
  have l: "logs = map (\<lambda>job. JObject
              (case snd (getJobLogData w owner repo (job_ID job) (job_Name job) rc) of
                 Inl err \<Rightarrow> [(''job_id'', JInt (job_ID job)),
                             (''job_name'', JString (job_Name job)),
                             (''error'', JString err)]
               | Inr res \<Rightarrow> res)) failedJobs"
    using collectLogs_logs [of w owner repo rc failedJobs] c by simp
  have k: "calls = concat (map (\<lambda>job. fst (getJobLogData w owner repo (job_ID job) (job_Name job) rc))
                          failedJobs)"
    using collectLogs_calls [of w owner repo rc failedJobs] c by simp
  have m: "map_of (failedJobsResult runID (length jobs) (length failedJobs) logs rc) ''logs''
          = Some (JArray logs)"
    by (simp add: failedJobsResult_def)
  have s: "\<forall>i < length failedJobs.
           case snd (getJobLogData w owner repo (job_ID (failedJobs ! i))
                       (job_Name (failedJobs ! i)) rc) of
             Inl err \<Rightarrow>
               logs ! i = JObject [(''job_id'', JInt (job_ID (failedJobs ! i))),
                                   (''job_name'', JString (job_Name (failedJobs ! i))),
                                   (''error'', JString err)]
           | Inr res \<Rightarrow> logs ! i = JObject res"
    using l by (auto split: sum.splits)
  have n: "length logs = length failedJobs"
    using l by simp
  show ?thesis
    using h m n k s by blast
qed

theorem failed_job_logs_one_slot_per_job_witness:
  "\<exists>calls logs.
     handleFailedJobLogs (testActions None) ''owner'' ''repo'' 456 False
       = (ListWorkflowJobsCall ''owner'' ''repo'' 456 # calls,
          Inr (ToolResultText (renderJSON (JObject (failedJobsResult 456 3 2 logs False)))))
     \<and> calls = [GetWorkflowJobLogsCall ''owner'' ''repo'' 2, GetWorkflowJobLogsCall ''owner'' ''repo'' 3]
     \<and> length logs = 2
     \<and> map_of (failedJobsResult 456 3 2 logs False) ''logs'' = Some (JArray logs)
     \<and> logs ! 1 = JObject [(''job_id'', JInt 3), (''job_name'', JString ''test-job-3''),
                           (''error'', JString ''failed to get job logs for job 3: 404 Not Found'')]"
proof -
  have l: "ListWorkflowJobs (testActions None) ''owner'' ''repo'' 456 = Inr testJobs"
    by (simp add: testActions_def)
  have t: "length testJobs = 3"
    by (simp add: testJobs_def)
  have m: "Marshal (testActions None) v = Inr (renderJSON v)" for v
    by (simp add: testActions_def)
  have g2: "getJobLogData (testActions None) ''owner'' ''repo'' 2 ''test-job-2'' False
              = ([GetWorkflowJobLogsCall ''owner'' ''repo'' 2],
                 Inr [(''job_id'', JInt 2), (''job_name'', JString ''test-job-2''),
                      (''logs_url'', JString ''https://github.com/logs/job/2''),
                      (''message'', JString ''Job logs are available for download''),
                      (''note'', JString (''The logs_url provides a download link for the individual job logs in plain text format. '' @
                         ''Use return_content=true to get the actual log content.''))])"
    by (simp add: getJobLogData_def testActions_def show_int_2)
  have g3: "getJobLogData (testActions None) ''owner'' ''repo'' 3 ''test-job-3'' False
              = ([GetWorkflowJobLogsCall ''owner'' ''repo'' 3],
                 Inl ''failed to get job logs for job 3: 404 Not Found'')"
    by (simp add: getJobLogData_def testActions_def show_int_3)
  have f2: "length (filter (\<lambda>job. Conclusion job = ''failure'') testJobs) = 2"
    by (simp add: testJobs_failed)
  have ne: "filter (\<lambda>job. Conclusion job = ''failure'') testJobs \<noteq> []"
    by (simp add: testJobs_failed)
  from failed_job_logs_one_slot_per_job [OF l refl, of False]
  obtain calls logs where
    len: "length logs = length (filter (\<lambda>job. Conclusion job = ''failure'') testJobs)"
    and c: "calls = concat (map (\<lambda>job. fst (getJobLogData (testActions None) ''owner'' ''repo''
                                          (job_ID job) (job_Name job) False))
                          (filter (\<lambda>job. Conclusion job = ''failure'') testJobs))"
    and sl: "\<forall>i < length (filter (\<lambda>job. Conclusion job = ''failure'') testJobs).
           case snd (getJobLogData (testActions None) ''owner'' ''repo''
                       (job_ID (filter (\<lambda>job. Conclusion job = ''failure'') testJobs ! i))
                       (job_Name (filter (\<lambda>job. Conclusion job = ''failure'') testJobs ! i)) False) of
             Inl err \<Rightarrow>
               logs ! i = JObject
                 [(''job_id'', JInt (job_ID (filter (\<lambda>job. Conclusion job = ''failure'') testJobs ! i))),
                  (''job_name'', JString (job_Name (filter (\<lambda>job. Conclusion job = ''failure'') testJobs ! i))),
                  (''error'', JString err)]
           | Inr res \<Rightarrow> logs ! i = JObject res"
    and p: "map_of (failedJobsResult 456 (length testJobs)
                 (length (filter (\<lambda>job. Conclusion job = ''failure'') testJobs)) logs False) ''logs''
          = Some (JArray logs)"
    and h: "handleFailedJobLogs (testActions None) ''owner'' ''repo'' 456 False =
          (if filter (\<lambda>job. Conclusion job = ''failure'') testJobs = [] then
             ([ListWorkflowJobsCall ''owner'' ''repo'' 456],
              Inr (ToolResultText
                (case Marshal (testActions None) (JObject
                     [(''message'', JString ''No failed jobs found in this workflow run''),
                      (''run_id'', JInt 456),
                      (''total_jobs'', JInt (int (length testJobs))),
                      (''failed_jobs'', JInt 0)]) of
                   Inl err \<Rightarrow> [] | Inr r \<Rightarrow> r)))
           else
             (ListWorkflowJobsCall ''owner'' ''repo'' 456 # calls,
              case Marshal (testActions None) (JObject (failedJobsResult 456 (length testJobs)
                   (length (filter (\<lambda>job. Conclusion job = ''failure'') testJobs)) logs False)) of
                Inl err \<Rightarrow> Inl (Err (''failed to marshal response: '' @ err))
              | Inr r \<Rightarrow> Inr (ToolResultText r)))"
    by blast
  have h': "handleFailedJobLogs (testActions None) ''owner'' ''repo'' 456 False
       = (ListWorkflowJobsCall ''owner'' ''repo'' 456 # calls,
          Inr (ToolResultText (renderJSON (JObject (failedJobsResult 456 3 2 logs False)))))"
    using h ne unfolding t f2 m by simp
  have c': "calls = [GetWorkflowJobLogsCall ''owner'' ''repo'' 2,
                     GetWorkflowJobLogsCall ''owner'' ''repo'' 3]"
    using c by (simp add: testJobs_failed g2 g3)
  have s1: "logs ! 1 = JObject [(''job_id'', JInt 3), (''job_name'', JString ''test-job-3''),
                           (''error'', JString ''failed to get job logs for job 3: 404 Not Found'')]"
    using sl [rule_format, of 1] by (simp add: testJobs_failed g3)
  show ?thesis
    using h' c' s1 len p unfolding t f2 by blast
qed

text \<open>
  C10, as the code has it. For a call with owner and repo, whose optional parameters have
  their types when present, and for which the client is available: with
  \<open>failed_only\<close> true and \<open>run_id\<close> absent or zero the result is the tool-level
  error "run_id is required when failed_only is true"; with \<open>failed_only\<close> false or
  absent and \<open>job_id\<close> absent or zero it is "job_id is required when failed_only is
  false". In both cases no request is sent.
\<close>

theorem job_logs_validation:
  assumes "args ''owner'' = Some (AString owner)" and "args ''repo'' = Some (AString repo)"
    and "args ''job_id'' = None \<or> (\<exists>v. args ''job_id'' = Some (ANumber v))"
    and "args ''run_id'' = None \<or> (\<exists>v. args ''run_id'' = Some (ANumber v))"
    and "args ''failed_only'' = None \<or> (\<exists>b. args ''failed_only'' = Some (ABool b))"
    and "args ''return_content'' = None \<or> (\<exists>b. args ''return_content'' = Some (ABool b))"
    and "client w = None"
  shows "(args ''failed_only'' = Some (ABool True)
          \<and> (args ''run_id'' = None \<or> args ''run_id'' = Some (ANumber 0)) \<longrightarrow>
            GetJobLogs w args
              = ([], Inr (ToolResultError ''run_id is required when failed_only is true'')))
       \<and> ((args ''failed_only'' = None \<or> args ''failed_only'' = Some (ABool False))
          \<and> (args ''job_id'' = None \<or> args ''job_id'' = Some (ANumber 0)) \<longrightarrow>
            GetJobLogs w args
              = ([], Inr (ToolResultError ''job_id is required when failed_only is false'')))"
  using assms
  by (auto simp add: GetJobLogs_def RequiredParam_string_def OptionalIntParam_def
        OptionalParam_bool_def)


theorem job_logs_validation_witness:
  "GetJobLogs (testActions None) (toolArguments [(''failed_only'', ABool True)])
     = ([], Inr (ToolResultError ''run_id is required when failed_only is true''))
   \<and> GetJobLogs (testActions None) (toolArguments [(''run_id'', ANumber 456)])
     = ([], Inr (ToolResultError ''job_id is required when failed_only is false''))"
proof (rule conjI)
  show "GetJobLogs (testActions None) (toolArguments [(''failed_only'', ABool True)])
     = ([], Inr (ToolResultError ''run_id is required when failed_only is true''))"
    by (rule job_logs_validation [THEN conjunct1, THEN mp, of _ "''owner''" "''repo''"])
       (auto simp add: toolArguments_def testActions_def)
  show "GetJobLogs (testActions None) (toolArguments [(''run_id'', ANumber 456)])
     = ([], Inr (ToolResultError ''job_id is required when failed_only is false''))"
    by (rule job_logs_validation [THEN conjunct2, THEN mp, of _ "''owner''" "''repo''"])
       (auto simp add: toolArguments_def testActions_def)
qed

text \<open>
  The claim without the condition on the client fails: the handler asks for the client
  before it validates \<open>run_id\<close>, and a failure there is returned as the error of the
  call, not as a tool-level validation error.
\<close>

theorem validation_after_client:
  "\<not> (\<forall>w args owner repo.
        args ''owner'' = Some (AString owner) \<and> args ''repo'' = Some (AString repo)
        \<and> args ''failed_only'' = Some (ABool True)
        \<and> (args ''run_id'' = None \<or> args ''run_id'' = Some (ANumber 0))
        \<longrightarrow> GetJobLogs w args
              = ([], Inr (ToolResultError ''run_id is required when failed_only is true'')))"
proof
  assume a: "\<forall>w args owner repo.
        args ''owner'' = Some (AString owner) \<and> args ''repo'' = Some (AString repo)
        \<and> args ''failed_only'' = Some (ABool True)
        \<and> (args ''run_id'' = None \<or> args ''run_id'' = Some (ANumber 0))
        \<longrightarrow> GetJobLogs w args
              = ([], Inr (ToolResultError ''run_id is required when failed_only is true''))"
  have r: "GetJobLogs (testActions (Some ''no token'')) (toolArguments [(''failed_only'', ABool True)])
             = ([], Inl (Err ''failed to get GitHub client: no token''))"
    by (simp add: GetJobLogs_def RequiredParam_string_def OptionalIntParam_def
          OptionalParam_bool_def toolArguments_def testActions_def)
  have "GetJobLogs (testActions (Some ''no token'')) (toolArguments [(''failed_only'', ABool True)])
          = ([], Inr (ToolResultError ''run_id is required when failed_only is true''))"
    by (rule a [rule_format, of _ "''owner''" "''repo''"]) (simp add: toolArguments_def)
  with r show False by simp
qed

section \<open>The read-only toolset group\<close>

lemma readOnly_applyCall: "readOnly (applyCall tg c) = readOnly tg"
  by (cases c) (auto simp add: AddToolset_def EnableToolset_def)

text \<open>The flag of a group is fixed at construction: no call changes it.\<close>

lemma readOnly_calls: "readOnly (foldl applyCall tg cs) = readOnly tg"
  by (induction cs arbitrary: tg) (simp_all add: readOnly_applyCall)

text \<open>A read-only group exposes read operations only.\<close>

lemma exposed_read_only:
  "readOnly tg \<Longrightarrow>
   set (exposedTools tg)
     \<subseteq> set (concat (map readTools (Toolsets tg))) \<union> set (readTools InitDynamicToolset)"
  by (auto simp add: exposedTools_def split: if_splits)

text \<open>
  C1. Take a group constructed with \<open>readOnly = true\<close>, after any sequence of
  \<open>AddToolset\<close> and \<open>EnableToolset\<close> calls, with toolsets of any enabled flag. Under
  the invariant of the data model (operation names are unique across the group), no
  operation registered through \<open>AddWriteTools\<close> in any toolset of the group is in the
  exposed operation list.
\<close>

theorem read_only_group_exposes_no_write_tools:
  assumes "tg = foldl applyCall (NewToolsetGroup True) calls"
    and "uniqueToolNames tg"
    and "ts \<in> set (Toolsets tg)" and "tool \<in> set (writeTools ts)"
  shows "tool \<notin> set (exposedTools tg)"
proof -
  have ro: "readOnly tg"
    using assms(1) by (simp add: readOnly_calls NewToolsetGroup_def)
  have w: "tool \<in> set (concat (map writeTools (Toolsets tg)))"
    using assms(3,4) by auto
  have "tool \<notin> set (concat (map readTools (Toolsets tg))) \<union> set (readTools InitDynamicToolset)"
    using assms(2) w unfolding uniqueToolNames_def by auto
  then show ?thesis
    using exposed_read_only [OF ro] by blast
qed

text \<open>
  The default group of the server in read-only mode, with the toolsets \<open>repos\<close> and
  \<open>actions\<close> enabled: the read operation \<open>GetFileContents\<close> is exposed, the
  write operation \<open>CreateOrUpdateFile\<close> of the same toolset is not.
\<close>

theorem read_only_group_exposes_no_write_tools_witness:
  "''GetFileContents'' \<in> set (exposedTools (foldl applyCall (DefaultToolsetGroup True)
        [CallEnableToolset ''repos'', CallEnableToolset ''actions'']))
   \<and> ''CreateOrUpdateFile'' \<notin> set (exposedTools (foldl applyCall (DefaultToolsetGroup True)
        [CallEnableToolset ''repos'', CallEnableToolset ''actions'']))"
proof
  show "''GetFileContents'' \<in> set (exposedTools (foldl applyCall (DefaultToolsetGroup True)
        [CallEnableToolset ''repos'', CallEnableToolset ''actions'']))"
    by code_simp
  have e: "foldl applyCall (DefaultToolsetGroup True)
             [CallEnableToolset ''repos'', CallEnableToolset ''actions'']
           = foldl applyCall (NewToolsetGroup True)
               (map CallAddToolset (Toolsets (DefaultToolsetGroup True))
                @ [CallEnableToolset ''repos'', CallEnableToolset ''actions''])"
    by code_simp
  have u: "uniqueToolNames (foldl applyCall (DefaultToolsetGroup True)
             [CallEnableToolset ''repos'', CallEnableToolset ''actions''])"
    by code_simp
  have m: "Toolsets (foldl applyCall (DefaultToolsetGroup True)
             [CallEnableToolset ''repos'', CallEnableToolset ''actions'']) ! 1
           \<in> set (Toolsets (foldl applyCall (DefaultToolsetGroup True)
             [CallEnableToolset ''repos'', CallEnableToolset ''actions'']))"
    by code_simp
  have w: "''CreateOrUpdateFile'' \<in> set (writeTools (Toolsets (foldl applyCall
             (DefaultToolsetGroup True)
             [CallEnableToolset ''repos'', CallEnableToolset ''actions'']) ! 1))"
    by code_simp
  show "''CreateOrUpdateFile'' \<notin> set (exposedTools (foldl applyCall (DefaultToolsetGroup True)
        [CallEnableToolset ''repos'', CallEnableToolset ''actions'']))"
    by (rule read_only_group_exposes_no_write_tools [OF e u m w])
qed

end
